theory Spec2Isabelle
  imports Main "HOL-Library.Word"
begin

section \<open>The homepage feature grid (HomepageFeatures/index.tsx)\<close>

text \<open>
  The component file declares a record type \<open>FeatureItem\<close>, a module-level array
  \<open>FeatureList\<close> of three such records, a function component \<open>Feature\<close> that builds one
  card, and the exported function component \<open>HomepageFeatures\<close> that maps \<open>Feature\<close> over
  \<open>FeatureList\<close> inside a \<open>section / div.container / div.row\<close> wrapper.

  The embedding keeps that shape. An element tree is a datatype; the two module-level
  bindings the functions read (\<open>FeatureList\<close> and the imported CSS module \<open>styles\<close>) are
  the fields of an explicit module state that every function takes and returns, so that
  "the list is not mutated" is a statement about the functions and not a convention.
\<close>

subsection \<open>Strings\<close>

text \<open>
  A JavaScript string is a sequence of 16-bit code units. The titles and descriptions of
  the source are Hangul text from the Basic Multilingual Plane, one code unit per
  character; they are written here as hexadecimal code units, ASCII runs through
  \<open>ascii\<close>.
\<close>

type_synonym jsstring = "16 word list"

definition ascii :: "string \<Rightarrow> jsstring" where
  "ascii s = map (\<lambda>c. word_of_nat (of_char c)) s"

subsection \<open>Element trees\<close>

text \<open>
  \<open>Svg\<close> is a component obtained from \<open>require('@site/static/img/....svg').default\<close>; the
  asset pipeline that resolves it is outside the repository, so the handle is the module
  path.
\<close>

datatype svg_component = SvgModule string

text \<open>The \<open>as\<close> prop of \<open>@theme/Heading\<close>.\<close>

datatype heading_tag = H1 | H2 | H3 | H4 | H5 | H6

text \<open>The two attributes the file ever sets; \<open>None\<close> is an attribute not given.\<close>

record attrs =
  className :: "jsstring option"
  role :: "jsstring option"

text \<open>
  A \<open>ReactNode\<close>: nothing (\<open>null\<close>, \<open>undefined\<close>, a boolean), a string, a fragment
  \<open><>...</>\<close>, a host element such as \<open><div className=...>\<close>, a \<open><Heading as=...>\<close>
  element, an \<open><Svg .../>\<close> element, and a \<open><Feature key=...>\<close> element together with what
  \<open>Feature\<close> returns for its props. \<open>Heading\<close> and \<open>Svg\<close> are components of the external
  framework and stay unexpanded.
\<close>

datatype node =
    Empty
  | Text jsstring
  | Fragment "node list"
  | Host string attrs "node list"
  | Heading heading_tag "node list"
  | SvgEl svg_component attrs
  | Keyed nat node

record FeatureItem =
  title :: jsstring
  Svg :: svg_component
  description :: node

subsection \<open>Module state\<close>

text \<open>
  \<open>styles\<close> is the default import of \<open>./styles.module.css\<close>, a file that is not among
  the component's sources: an object from class names to generated class strings. The component
  reads \<open>styles.features\<close> and \<open>styles.featureSvg\<close>, which are therefore parameters.
\<close>

record css_module =
  features :: jsstring
  featureSvg :: jsstring

record module_state =
  FeatureList_val :: "FeatureItem list"
  styles_val :: css_module

abbreviation no_attrs :: attrs where
  "no_attrs \<equiv> \<lparr>className = None, role = None\<rparr>"

abbreviation class_attr :: "jsstring \<Rightarrow> attrs" where
  "class_attr c \<equiv> \<lparr>className = Some c, role = None\<rparr>"

subsection \<open>The fixed feature list (lines 12 to 43)\<close>

text \<open>
  JSX text is cleaned line by line: leading whitespace of every line but the first and
  trailing whitespace of every line but the last are removed, empty lines are dropped and
  the remaining lines are joined by one space. Each description is thus a fragment of
  three children: text ending in a space, a \<open>strong\<close> element, and text made of the rest
  of the first source line and the second source line, joined by one space.
\<close>

definition FeatureList :: "FeatureItem list" where
  "FeatureList =
   [\<lparr>title = [0xC2E4, 0xC804, 0x0020, 0xD504, 0xB86C, 0xD504, 0xD2B8, 0x0020, 0xBD84, 0xC11D],
     Svg = SvgModule ''@site/static/img/undraw_docusaurus_mountain.svg'',
     description = Fragment
       [Text (ascii ''Cluely, Cursor, Perplexity '' @ [0xAC19, 0xC740, 0x0020]),
        Host ''strong'' no_attrs [Text [0xC2E4, 0xC81C, 0x0020, 0xC11C, 0xBE44, 0xC2A4]],
        Text [0xC5D0, 0xC11C, 0x0020, 0xC0AC, 0xC6A9, 0xB418, 0xB294, 0x0020,
              0xD504, 0xB86C, 0xD504, 0xD2B8, 0xB97C, 0x0020, 0xBD84, 0xC11D, 0xD558, 0xC5EC,
              0x0020, 0xAC80, 0xC99D, 0xB41C, 0x0020, 0xD328, 0xD134, 0xACFC, 0x0020,
              0xC804, 0xB7B5, 0xC744, 0x0020, 0xACF5, 0xC720, 0xD569, 0xB2C8, 0xB2E4, 0x002E]]\<rparr>,
    \<lparr>title = ascii ''LLM '' @ [0xC5D0, 0xC774, 0xC804, 0xD2B8, 0x0020, 0xCD5C, 0xC801, 0xD654],
     Svg = SvgModule ''@site/static/img/undraw_docusaurus_tree.svg'',
     description = Fragment
       [Text [0xC5ED, 0xD560, 0x0020, 0xC815, 0xC758, 0x002C, 0x0020, 0xCEE8, 0xD14D, 0xC2A4,
              0xD2B8, 0x0020, 0xAD00, 0xB9AC, 0x002C, 0x0020, 0xB3C4, 0xAD6C, 0x0020,
              0xD65C, 0xC6A9, 0x0020, 0xB4F1, 0x0020],
        Host ''strong'' no_attrs
          [Text [0xC5D0, 0xC774, 0xC804, 0xD2B8, 0x0020, 0xAC1C, 0xBC1C, 0xC758, 0x0020,
                 0xD575, 0xC2EC, 0x0020, 0xC694, 0xC18C]],
        Text [0xB4E4, 0xC744, 0x0020, 0xCCB4, 0xACC4, 0xC801, 0xC73C, 0xB85C, 0x0020,
              0xBD84, 0xC11D, 0xD558, 0xACE0, 0x0020, 0xBCA0, 0xC2A4, 0xD2B8, 0x0020,
              0xD504, 0xB799, 0xD2F0, 0xC2A4, 0xB97C, 0x0020, 0xC81C, 0xC2DC, 0xD569, 0xB2C8,
              0xB2E4, 0x002E]]\<rparr>,
    \<lparr>title = [0xBC14, 0xB85C, 0x0020, 0xC801, 0xC6A9, 0x0020, 0xAC00, 0xB2A5, 0xD55C, 0x0020,
              0xC778, 0xC0AC, 0xC774, 0xD2B8],
     Svg = SvgModule ''@site/static/img/undraw_docusaurus_react.svg'',
     description = Fragment
       [Text [0xC774, 0xB860, 0xC774, 0x0020, 0xC544, 0xB2CC, 0x0020],
        Host ''strong'' no_attrs
          [Text [0xC2E4, 0xBB34, 0xC5D0, 0xC11C, 0x0020, 0xBC14, 0xB85C, 0x0020, 0xD65C, 0xC6A9]],
        Text [0xD560, 0x0020, 0xC218, 0x0020, 0xC788, 0xB294, 0x0020, 0xD504, 0xB86C, 0xD504,
              0xD2B8, 0x0020, 0xD328, 0xD134, 0xACFC, 0x0020, 0xAD6C, 0xD604, 0x0020,
              0xAC00, 0xC774, 0xB4DC, 0xB97C, 0x0020, 0xC81C, 0xACF5, 0xD569, 0xB2C8, 0xB2E4,
              0x002E]]\<rparr>]"

text \<open>The state after module initialisation, for a given CSS module.\<close>

definition initial_state :: "css_module \<Rightarrow> module_state" where
  "initial_state st = \<lparr>FeatureList_val = FeatureList, styles_val = st\<rparr>"

text \<open>A CSS module with sample class strings, for concrete runs.\<close>

definition example_styles :: css_module where
  "example_styles =
     \<lparr>features = ascii ''features_t9lD'', featureSvg = ascii ''featureSvg_GfXr''\<rparr>"

subsection \<open>Library functions the component calls\<close>

text \<open>
  \<open>clsx\<close> (an external package) called with strings: the non-empty arguments joined by
  single spaces.
\<close>

fun join_space :: "jsstring list \<Rightarrow> jsstring" where
  "join_space [] = []"
| "join_space [a] = a"
| "join_space (a # b # rest) = a @ [0x0020] @ join_space (b # rest)"

definition clsx :: "jsstring list \<Rightarrow> jsstring" where
  "clsx args = join_space (filter (\<lambda>a. a \<noteq> []) args)"

text \<open>
  \<open>Array.prototype.map\<close> with a callback \<open>(element, index)\<close>: the elements are visited in
  index order from 0, each call may change the state, and the results are collected in
  the same order.
\<close>

fun array_map ::
  "('a \<Rightarrow> nat \<Rightarrow> 's \<Rightarrow> 'b \<times> 's) \<Rightarrow> nat \<Rightarrow> 'a list \<Rightarrow> 's \<Rightarrow> 'b list \<times> 's" where
  "array_map f idx [] s = ([], s)"
| "array_map f idx (x # xs) s =
     (case f x idx s of (y, s1) \<Rightarrow>
        (case array_map f (Suc idx) xs s1 of (ys, s2) \<Rightarrow> (y # ys, s2)))"

subsection \<open>The components (lines 45 to 71)\<close>

definition Feature :: "FeatureItem \<Rightarrow> module_state \<Rightarrow> node \<times> module_state" where
  "Feature props s =
     (Host ''div'' (class_attr (clsx [ascii ''col col--4'']))
        [Host ''div'' (class_attr (ascii ''text--center''))
           [SvgEl (Svg props)
              \<lparr>className = Some (featureSvg (styles_val s)), role = Some (ascii ''img'')\<rparr>],
         Host ''div'' (class_attr (ascii ''text--center padding-horiz--md''))
           [Heading H3 [Text (title props)],
            Host ''p'' no_attrs [description props]]],
      s)"

text \<open>
  The callback of line 64: \<open><Feature key={idx} {...props} />\<close>, the element with its key
  and the card \<open>Feature\<close> returns for the spread props.
\<close>

definition feature_element :: "FeatureItem \<Rightarrow> nat \<Rightarrow> module_state \<Rightarrow> node \<times> module_state" where
  "feature_element props idx s = (case Feature props s of (el, s1) \<Rightarrow> (Keyed idx el, s1))"

definition HomepageFeatures :: "module_state \<Rightarrow> node \<times> module_state" where
  "HomepageFeatures s =
     (case array_map feature_element 0 (FeatureList_val s) s of (cards, s1) \<Rightarrow>
        (Host ''section'' (class_attr (features (styles_val s)))
           [Host ''div'' (class_attr (ascii ''container''))
              [Host ''div'' (class_attr (ascii ''row'')) cards]],
         s1))"

subsection \<open>Reading the output tree\<close>

text \<open>The children of the row: the section, its one container, its one row.\<close>

fun row_of :: "node \<Rightarrow> node list option" where
  "row_of (Host t a cs) =
     (if t = ''div'' \<and> className a = Some (ascii ''row'') then Some cs else None)"
| "row_of _ = None"

fun container_row :: "node \<Rightarrow> node list option" where
  "container_row (Host t a [r]) =
     (if t = ''div'' \<and> className a = Some (ascii ''container'') then row_of r else None)"
| "container_row _ = None"

fun section_cards :: "node \<Rightarrow> node list option" where
  "section_cards (Host t a [c]) = (if t = ''section'' then container_row c else None)"
| "section_cards _ = None"

text \<open>All \<open>Heading\<close> elements of a tree, in document order, with their level and children.\<close>

fun headings :: "node \<Rightarrow> (heading_tag \<times> node list) list" where
  "headings Empty = []"
| "headings (Text t) = []"
| "headings (Fragment cs) = concat (map headings cs)"
| "headings (Host t a cs) = concat (map headings cs)"
| "headings (Heading lvl cs) = (lvl, cs) # concat (map headings cs)"
| "headings (SvgEl v a) = []"
| "headings (Keyed k n) = headings n"

text \<open>All host elements with a given tag, in document order.\<close>

fun elements :: "string \<Rightarrow> node \<Rightarrow> node list" where
  "elements tag Empty = []"
| "elements tag (Text t) = []"
| "elements tag (Fragment cs) = concat (map (elements tag) cs)"
| "elements tag (Host t a cs) =
     (if t = tag then [Host t a cs] else []) @ concat (map (elements tag) cs)"
| "elements tag (Heading lvl cs) = concat (map (elements tag) cs)"
| "elements tag (SvgEl v a) = []"
| "elements tag (Keyed k n) = elements tag n"

text \<open>All \<open>Svg\<close> elements of a tree, in document order.\<close>

fun svgs :: "node \<Rightarrow> (svg_component \<times> attrs) list" where
  "svgs Empty = []"
| "svgs (Text t) = []"
| "svgs (Fragment cs) = concat (map svgs cs)"
| "svgs (Host t a cs) = concat (map svgs cs)"
| "svgs (Heading lvl cs) = concat (map svgs cs)"
| "svgs (SvgEl v a) = [(v, a)]"
| "svgs (Keyed k n) = svgs n"

text \<open>
  The parts of one card, read off its root element: the class tokens of the root, the
  icon wrapper (first child), and the heading and the paragraph of the text wrapper
  (second child).
\<close>

fun split_spaces :: "jsstring \<Rightarrow> jsstring \<Rightarrow> jsstring list" where
  "split_spaces cur [] = (if cur = [] then [] else [cur])"
| "split_spaces cur (c # cs) =
     (if c = 0x0020 then (if cur = [] then [] else [cur]) @ split_spaces [] cs
      else split_spaces (cur @ [c]) cs)"

fun card_root :: "node \<Rightarrow> node" where
  "card_root (Keyed k n) = n"
| "card_root n = n"

fun card_key :: "node \<Rightarrow> nat option" where
  "card_key (Keyed k n) = Some k"
| "card_key _ = None"

fun root_class_tokens :: "node \<Rightarrow> (string \<times> jsstring list) option" where
  "root_class_tokens (Host t a cs) =
     (case className a of None \<Rightarrow> Some (t, []) | Some c \<Rightarrow> Some (t, split_spaces [] c))"
| "root_class_tokens _ = None"

fun root_children :: "node \<Rightarrow> node list" where
  "root_children (Host t a cs) = cs"
| "root_children _ = []"

definition card_class_tokens :: "node \<Rightarrow> (string \<times> jsstring list) option" where
  "card_class_tokens c = root_class_tokens (card_root c)"

definition card_icon_wrapper :: "node \<Rightarrow> node option" where
  "card_icon_wrapper c =
     (case root_children (card_root c) of [w1, w2] \<Rightarrow> Some w1 | _ \<Rightarrow> None)"

definition card_text_wrapper :: "node \<Rightarrow> node option" where
  "card_text_wrapper c =
     (case root_children (card_root c) of [w1, w2] \<Rightarrow> Some w2 | _ \<Rightarrow> None)"

definition card_heading :: "node \<Rightarrow> (heading_tag \<times> jsstring) option" where
  "card_heading c =
     (case card_text_wrapper c of
        Some w \<Rightarrow> (case root_children w of
                    [Heading lvl [Text t], p] \<Rightarrow> Some (lvl, t)
                  | _ \<Rightarrow> None)
      | None \<Rightarrow> None)"

definition card_title :: "node \<Rightarrow> jsstring option" where
  "card_title c = map_option snd (card_heading c)"

definition card_description :: "node \<Rightarrow> node option" where
  "card_description c =
     (case card_text_wrapper c of
        Some w \<Rightarrow> (case root_children w of
                    [h, Host t a [d]] \<Rightarrow> (if t = ''p'' then Some d else None)
                  | _ \<Rightarrow> None)
      | None \<Rightarrow> None)"

subsection \<open>Rendering with the run-time checks\<close>

text \<open>
  The two errors React raises while rendering a tree: an element whose type is not a
  component or tag name ("Element type is invalid"), and a child that is a plain object
  ("Objects are not valid as a React child").
\<close>

datatype render_error = InvalidElementType | InvalidChild

text \<open>
  A JavaScript value as it may stand in a child position: \<open>undefined\<close>, \<open>null\<close>, a boolean,
  a number (given by the string \<open>ToString\<close> yields for it), a string, an array, a plain
  object, or an element (given by its tree).
\<close>

datatype jsvalue =
    VUndefined
  | VNull
  | VBool bool
  | VNum jsstring
  | VStr jsstring
  | VArr "jsvalue list"
  | VObj
  | VElem node

text \<open>
  An entry as \<open>Feature\<close> finds it when the types are not trusted: any value under
  \<open>title\<close> and \<open>description\<close>, and under \<open>Svg\<close> a component or, when the asset module has
  no default export, nothing.
\<close>

record raw_item =
  raw_title :: jsvalue
  raw_Svg :: "svg_component option"
  raw_description :: jsvalue

text \<open>The results of a sequence of steps, up to the first error.\<close>

fun first_error :: "('e + 'a) list \<Rightarrow> 'e + 'a list" where
  "first_error [] = Inr []"
| "first_error (Inl e # rs) = Inl e"
| "first_error (Inr a # rs) =
     (case first_error rs of Inl e \<Rightarrow> Inl e | Inr as \<Rightarrow> Inr (a # as))"

text \<open>
  What React makes of a child: nothing for \<open>undefined\<close>, \<open>null\<close> and booleans, text for
  numbers and strings, the children in turn for an array, the element for an element,
  and an error for a plain object.
\<close>

fun react_child :: "jsvalue \<Rightarrow> render_error + node" where
  "react_child VUndefined = Inr Empty"
| "react_child VNull = Inr Empty"
| "react_child (VBool b) = Inr Empty"
| "react_child (VNum d) = Inr (Text d)"
| "react_child (VStr t) = Inr (Text t)"
| "react_child (VArr vs) =
     (case first_error (map react_child vs) of Inl e \<Rightarrow> Inl e | Inr ns \<Rightarrow> Inr (Fragment ns))"
| "react_child VObj = Inl InvalidChild"
| "react_child (VElem n) = Inr n"

text \<open>
  \<open>Feature\<close> (lines 45 to 57) on such an entry, with the checks React makes in document
  order: the type of the \<open>Svg\<close> element, the child of the heading, the child of the
  paragraph.
\<close>

definition Feature_checked :: "css_module \<Rightarrow> raw_item \<Rightarrow> render_error + node" where
  "Feature_checked st p =
     (case raw_Svg p of
        None \<Rightarrow> Inl InvalidElementType
      | Some svg \<Rightarrow>
          (case react_child (raw_title p) of
             Inl e \<Rightarrow> Inl e
           | Inr t \<Rightarrow>
               (case react_child (raw_description p) of
                  Inl e \<Rightarrow> Inl e
                | Inr d \<Rightarrow>
                    Inr (Host ''div'' (class_attr (clsx [ascii ''col col--4'']))
                          [Host ''div'' (class_attr (ascii ''text--center''))
                             [SvgEl svg \<lparr>className = Some (featureSvg st),
                                         role = Some (ascii ''img'')\<rparr>],
                           Host ''div'' (class_attr (ascii ''text--center padding-horiz--md''))
                             [Heading H3 [t], Host ''p'' no_attrs [d]]]))))"

text \<open>
  The callback of line 64 and the \<open>map\<close> of lines 64 to 66, stopping at the first
  error.
\<close>

definition feature_element_checked ::
  "css_module \<Rightarrow> raw_item \<Rightarrow> nat \<Rightarrow> render_error + node" where
  "feature_element_checked st p idx =
     (case Feature_checked st p of Inl e \<Rightarrow> Inl e | Inr el \<Rightarrow> Inr (Keyed idx el))"

fun checked_map :: "('a \<Rightarrow> nat \<Rightarrow> 'e + 'b) \<Rightarrow> nat \<Rightarrow> 'a list \<Rightarrow> 'e + 'b list" where
  "checked_map f idx [] = Inr []"
| "checked_map f idx (x # xs) =
     (case f x idx of
        Inl e \<Rightarrow> Inl e
      | Inr y \<Rightarrow> (case checked_map f (Suc idx) xs of Inl e \<Rightarrow> Inl e | Inr ys \<Rightarrow> Inr (y # ys)))"

text \<open>The entry point (lines 59 to 71) on a list of such entries.\<close>

definition HomepageFeatures_checked :: "css_module \<Rightarrow> raw_item list \<Rightarrow> render_error + node" where
  "HomepageFeatures_checked st es =
     (case checked_map (feature_element_checked st) 0 es of
        Inl e \<Rightarrow> Inl e
      | Inr cards \<Rightarrow>
          Inr (Host ''section'' (class_attr (features st))
                 [Host ''div'' (class_attr (ascii ''container''))
                    [Host ''div'' (class_attr (ascii ''row'')) cards]]))"








subsection \<open>Repeated invocation of the entry point\<close>

text \<open>The module state after \<open>n\<close> invocations of the entry point, one after the other.\<close>

fun render_times :: "nat \<Rightarrow> module_state \<Rightarrow> module_state" where
  "render_times 0 s = s"
| "render_times (Suc n) s = render_times n (snd (HomepageFeatures s))"

section \<open>Properties\<close>

subsection \<open>Auxiliary facts\<close>

lemma clsx_col: "clsx [ascii ''col col--4''] = ascii ''col col--4''"
  by (simp add: clsx_def ascii_def)

lemma tokens_col: "split_spaces [] (ascii ''col col--4'') = [ascii ''col'', ascii ''col--4'']"
  by (simp add: ascii_def)

lemma Feature_state: "snd (Feature props s) = s"
  by (simp add: Feature_def)

lemma feature_element_eq:
  "feature_element props idx s = (Keyed idx (fst (Feature props s)), s)"
  by (simp add: feature_element_def Feature_def)

text \<open>
  The loop of \<open>map\<close>, started at index \<open>k\<close>: the \<open>i\<close>-th result is the element keyed
  \<open>k + i\<close> for the \<open>i\<close>-th entry, and the state comes back as it went in.
\<close>

lemma array_map_feature_element:
  "array_map feature_element k fl s =
     (map (\<lambda>i. Keyed (k + i) (fst (Feature (fl ! i) s))) [0..<length fl], s)"
proof (induction fl arbitrary: k)
  case Nil
  show ?case by simp
next
  case (Cons e es)
  have "map (\<lambda>i. Keyed (k + i) (fst (Feature ((e # es) ! i) s))) [0..<length (e # es)] =
        Keyed k (fst (Feature e s)) #
        map (\<lambda>i. Keyed (Suc k + i) (fst (Feature (es ! i) s))) [0..<length es]"
    by (simp add: upt_rec [of 0 "Suc (length es)"] map_Suc_upt [symmetric] del: upt_Suc)
  with Cons.IH [of "Suc k"] show ?case
    by (simp add: feature_element_eq)
qed

lemma HomepageFeatures_eq:
  "HomepageFeatures s =
     (Host ''section'' (class_attr (features (styles_val s)))
        [Host ''div'' (class_attr (ascii ''container''))
           [Host ''div'' (class_attr (ascii ''row''))
              (map (\<lambda>i. Keyed i (fst (Feature (FeatureList_val s ! i) s)))
                 [0..<length (FeatureList_val s)])]],
      s)"
  by (simp add: HomepageFeatures_def array_map_feature_element)

lemma HomepageFeatures_state: "snd (HomepageFeatures s) = s"
  by (simp add: HomepageFeatures_eq)

lemma render_times_state: "render_times n s = s"
  by (induction n arbitrary: s) (simp_all add: HomepageFeatures_state)

lemma section_cards_eq:
  "section_cards (fst (HomepageFeatures s)) =
     Some (map (\<lambda>i. Keyed i (fst (Feature (FeatureList_val s ! i) s)))
             [0..<length (FeatureList_val s)])"
  by (simp add: HomepageFeatures_eq)

text \<open>A reading that gives \<open>g e\<close> on the card of entry \<open>e\<close> gives \<open>map g\<close> on the row.\<close>

lemma map_over_cards:
  assumes "\<And>i e. f (Keyed i (fst (Feature e s))) = g e"
  shows "map f (map (\<lambda>i. Keyed i (fst (Feature (xs ! i) s))) [0..<length xs]) = map g xs"
proof -
  have "map f (map (\<lambda>i. Keyed i (fst (Feature (xs ! i) s))) [0..<length xs]) =
        map g (map (\<lambda>i. xs ! i) [0..<length xs])"
    by (simp add: assms)
  then show ?thesis by (simp only: map_nth)
qed

lemma card_heading_Feature: "card_heading (Keyed i (fst (Feature e s))) = Some (H3, title e)"
  by (simp add: card_heading_def card_text_wrapper_def Feature_def)

lemma card_title_Feature: "card_title (Keyed i (fst (Feature e s))) = Some (title e)"
  by (simp add: card_title_def card_heading_Feature)

lemma card_description_Feature:
  "card_description (Keyed i (fst (Feature e s))) = Some (description e)"
  by (simp add: card_description_def card_text_wrapper_def Feature_def)

lemma card_class_tokens_Feature:
  "card_class_tokens (Keyed i (fst (Feature e s))) =
     Some (''div'', [ascii ''col'', ascii ''col--4''])"
  by (simp add: card_class_tokens_def Feature_def clsx_col tokens_col)

lemma card_icon_wrapper_Feature:
  "card_icon_wrapper (Keyed i (fst (Feature e s))) =
     Some (Host ''div'' (class_attr (ascii ''text--center''))
             [SvgEl (Svg e)
                \<lparr>className = Some (featureSvg (styles_val s)), role = Some (ascii ''img'')\<rparr>])"
  by (simp add: card_icon_wrapper_def Feature_def)

lemma headings_Feature:
  "headings (Keyed i (fst (Feature e s))) = (H3, [Text (title e)]) # headings (description e)"
  by (simp add: Feature_def)

lemma paragraphs_Feature:
  "elements ''p'' (Keyed i (fst (Feature e s))) =
     Host ''p'' no_attrs [description e] # elements ''p'' (description e)"
  by (simp add: Feature_def)

lemma svgs_Feature:
  "svgs (Keyed i (fst (Feature e s))) =
     (Svg e, \<lparr>className = Some (featureSvg (styles_val s)), role = Some (ascii ''img'')\<rparr>)
       # svgs (description e)"
  by (simp add: Feature_def)

text \<open>
  The wrappers hold no heading and no paragraph of their own, so those of the section
  are those of its cards, card after card.
\<close>

lemma headings_section:
  "headings (fst (HomepageFeatures s)) =
     concat (map (\<lambda>e. (H3, [Text (title e)]) # headings (description e)) (FeatureList_val s))"
proof -
  have "headings (fst (HomepageFeatures s)) =
        concat (map headings (map (\<lambda>i. Keyed i (fst (Feature (FeatureList_val s ! i) s)))
                 [0..<length (FeatureList_val s)]))"
    by (simp only: HomepageFeatures_eq fst_conv headings.simps list.map concat.simps append_Nil2)
  then show ?thesis
    by (simp only: map_over_cards [where f = headings
            and g = "\<lambda>e. (H3, [Text (title e)]) # headings (description e)"]
          headings_Feature)
qed

lemma paragraphs_section:
  "elements ''p'' (fst (HomepageFeatures s)) =
     concat (map (\<lambda>e. Host ''p'' no_attrs [description e] # elements ''p'' (description e))
               (FeatureList_val s))"
proof -
  have "elements ''p'' (fst (HomepageFeatures s)) =
        concat (map (elements ''p'')
                 (map (\<lambda>i. Keyed i (fst (Feature (FeatureList_val s ! i) s)))
                    [0..<length (FeatureList_val s)]))"
    by (simp add: HomepageFeatures_eq del: map_map)
  then show ?thesis
    by (simp only: map_over_cards [where f = "elements ''p''"
            and g = "\<lambda>e. Host ''p'' no_attrs [description e] # elements ''p'' (description e)"]
          paragraphs_Feature)
qed

lemma svgs_section:
  "svgs (fst (HomepageFeatures s)) =
     concat (map (\<lambda>e. (Svg e, \<lparr>className = Some (featureSvg (styles_val s)),
                                role = Some (ascii ''img'')\<rparr>) # svgs (description e))
               (FeatureList_val s))"
proof -
  have "svgs (fst (HomepageFeatures s)) =
        concat (map svgs (map (\<lambda>i. Keyed i (fst (Feature (FeatureList_val s ! i) s)))
                 [0..<length (FeatureList_val s)]))"
    by (simp only: HomepageFeatures_eq fst_conv svgs.simps list.map concat.simps append_Nil2)
  then show ?thesis
    by (simp only: map_over_cards [where f = svgs
            and g = "\<lambda>e. (Svg e, \<lparr>className = Some (featureSvg (styles_val s)),
                                role = Some (ascii ''img'')\<rparr>) # svgs (description e)"]
          svgs_Feature)
qed

subsection \<open>One card per entry, in order\<close>

text \<open>
  Claim C1. Whatever list the module state holds, the row of the rendered section has
  one child per entry and no other: the \<open>i\<close>-th child is the \<open>Feature\<close> element with key
  \<open>i\<close> whose card is the one \<open>Feature\<close> builds for the \<open>i\<close>-th entry. The row has as many
  children as the list has entries, and the cards without their keys are the entries'
  cards in list order.
\<close>

theorem cards_follow_entries:
  "section_cards (fst (HomepageFeatures s)) =
     Some (map (\<lambda>i. Keyed i (fst (Feature (FeatureList_val s ! i) s)))
             [0..<length (FeatureList_val s)])
   \<and> map_option length (section_cards (fst (HomepageFeatures s))) =
       Some (length (FeatureList_val s))
   \<and> map_option (map card_root) (section_cards (fst (HomepageFeatures s))) =
       Some (map (\<lambda>e. fst (Feature e s)) (FeatureList_val s))
   \<and> (\<forall>i < length (FeatureList_val s).
        map_option (\<lambda>cs. cs ! i) (section_cards (fst (HomepageFeatures s))) =
          Some (Keyed i (fst (Feature (FeatureList_val s ! i) s))))"
proof -
  have r: "map_option (map card_root) (section_cards (fst (HomepageFeatures s))) =
       Some (map (\<lambda>e. fst (Feature e s)) (FeatureList_val s))"
    by (simp only: section_cards_eq option.map
          map_over_cards [where f = card_root and g = "\<lambda>e. fst (Feature e s)"] card_root.simps)
  show ?thesis
    by (simp add: r) (simp add: section_cards_eq)
qed

text \<open>The second card of the repository's own list, with the example CSS module.\<close>

theorem cards_follow_entries_witness:
  "(1::nat) < length (FeatureList_val (initial_state example_styles))
   \<and> map_option (\<lambda>cs. cs ! 1)
        (section_cards (fst (HomepageFeatures (initial_state example_styles)))) =
       Some (Keyed 1 (fst (Feature (FeatureList_val (initial_state example_styles) ! 1)
                            (initial_state example_styles))))"
proof -
  have len: "(1::nat) < length (FeatureList_val (initial_state example_styles))"
    by (simp add: initial_state_def FeatureList_def)
  from cards_follow_entries [of "initial_state example_styles"]
  have "\<forall>i < length (FeatureList_val (initial_state example_styles)).
        map_option (\<lambda>cs. cs ! i)
          (section_cards (fst (HomepageFeatures (initial_state example_styles)))) =
          Some (Keyed i (fst (Feature (FeatureList_val (initial_state example_styles) ! i)
                               (initial_state example_styles))))"
    by blast
  with len show ?thesis by blast
qed

subsection \<open>What a card holds\<close>

text \<open>
  Claim C2. The card of an entry has that entry's title as the text of its heading and
  that entry's description as the content of its paragraph. Over the whole section,
  the titles read off the cards are the entries' titles in list order and the
  descriptions read off the cards are the entries' descriptions in list order. Nothing
  is added or lost at all: the headings of the section, in document order, are for each
  entry its title heading followed by the headings its own description contains, and
  likewise for the paragraphs.
\<close>

theorem card_title_and_description:
  "card_title (fst (Feature e s)) = Some (title e)
   \<and> card_description (fst (Feature e s)) = Some (description e)
   \<and> map_option (map card_title) (section_cards (fst (HomepageFeatures s))) =
       Some (map (\<lambda>e. Some (title e)) (FeatureList_val s))
   \<and> map_option (map card_description) (section_cards (fst (HomepageFeatures s))) =
       Some (map (\<lambda>e. Some (description e)) (FeatureList_val s))
   \<and> headings (fst (HomepageFeatures s)) =
       concat (map (\<lambda>e. (H3, [Text (title e)]) # headings (description e)) (FeatureList_val s))
   \<and> elements ''p'' (fst (HomepageFeatures s)) =
       concat (map (\<lambda>e. Host ''p'' no_attrs [description e] # elements ''p'' (description e))
                 (FeatureList_val s))"
proof -
  have t1: "card_title (fst (Feature e s)) = Some (title e)"
    by (simp add: card_title_def card_heading_def card_text_wrapper_def Feature_def)
  have d1: "card_description (fst (Feature e s)) = Some (description e)"
    by (simp add: card_description_def card_text_wrapper_def Feature_def)
  have t: "map_option (map card_title) (section_cards (fst (HomepageFeatures s))) =
       Some (map (\<lambda>e. Some (title e)) (FeatureList_val s))"
    by (simp only: section_cards_eq option.map
          map_over_cards [where f = card_title and g = "\<lambda>e. Some (title e)"]
          card_title_Feature)
  have d: "map_option (map card_description) (section_cards (fst (HomepageFeatures s))) =
       Some (map (\<lambda>e. Some (description e)) (FeatureList_val s))"
    by (simp only: section_cards_eq option.map
          map_over_cards [where f = card_description and g = "\<lambda>e. Some (description e)"]
          card_description_Feature)
  from t1 d1 t d headings_section [of s] paragraphs_section [of s] show ?thesis by blast
qed

subsection \<open>The repository's own list\<close>

text \<open>
  Claim C3. Rendering the fixed list gives exactly three cards, keyed 0, 1, 2. Their
  titles are, in this order, the three title literals of lines 14, 24 and 34 (given
  here as code units); their descriptions are the three description fragments of the
  list, unchanged; and the \<open>strong\<close> elements found in the cards are the three emphasised
  phrases of lines 18, 28 and 38, one per card.
\<close>

theorem fixed_list_three_cards:
  "map_option length (section_cards (fst (HomepageFeatures (initial_state st)))) = Some 3
   \<and> map_option (map card_key) (section_cards (fst (HomepageFeatures (initial_state st)))) =
       Some [Some 0, Some 1, Some 2]
   \<and> map_option (map card_title) (section_cards (fst (HomepageFeatures (initial_state st)))) =
       Some [Some [0xC2E4, 0xC804, 0x0020, 0xD504, 0xB86C, 0xD504, 0xD2B8, 0x0020, 0xBD84, 0xC11D],
             Some (ascii ''LLM '' @ [0xC5D0, 0xC774, 0xC804, 0xD2B8, 0x0020, 0xCD5C, 0xC801, 0xD654]),
             Some [0xBC14, 0xB85C, 0x0020, 0xC801, 0xC6A9, 0x0020, 0xAC00, 0xB2A5, 0xD55C, 0x0020,
                   0xC778, 0xC0AC, 0xC774, 0xD2B8]]
   \<and> map_option (map card_description)
         (section_cards (fst (HomepageFeatures (initial_state st)))) =
       Some (map (\<lambda>e. Some (description e)) FeatureList)
   \<and> map_option (map (elements ''strong''))
         (section_cards (fst (HomepageFeatures (initial_state st)))) =
       Some [[Host ''strong'' no_attrs [Text [0xC2E4, 0xC81C, 0x0020, 0xC11C, 0xBE44, 0xC2A4]]],
             [Host ''strong'' no_attrs
                [Text [0xC5D0, 0xC774, 0xC804, 0xD2B8, 0x0020, 0xAC1C, 0xBC1C, 0xC758, 0x0020,
                       0xD575, 0xC2EC, 0x0020, 0xC694, 0xC18C]]],
             [Host ''strong'' no_attrs
                [Text [0xC2E4, 0xBB34, 0xC5D0, 0xC11C, 0x0020, 0xBC14, 0xB85C, 0x0020,
                       0xD65C, 0xC6A9]]]]"
proof -
  have fl: "FeatureList_val (initial_state st) = FeatureList"
    by (simp add: initial_state_def)
  have n: "map_option length (section_cards (fst (HomepageFeatures (initial_state st)))) = Some 3"
    by (simp add: section_cards_eq fl) (simp add: FeatureList_def)
  have k: "map_option (map card_key) (section_cards (fst (HomepageFeatures (initial_state st)))) =
       Some [Some 0, Some 1, Some 2]"
    by (simp add: section_cards_eq fl) (simp add: FeatureList_def upt_rec)
  have t: "map_option (map card_title) (section_cards (fst (HomepageFeatures (initial_state st)))) =
       Some (map (\<lambda>e. Some (title e)) FeatureList)"
    by (simp only: section_cards_eq option.map fl
          map_over_cards [where f = card_title and g = "\<lambda>e. Some (title e)"]
          card_title_Feature)
  have d: "map_option (map card_description)
         (section_cards (fst (HomepageFeatures (initial_state st)))) =
       Some (map (\<lambda>e. Some (description e)) FeatureList)"
    by (simp only: section_cards_eq option.map fl
          map_over_cards [where f = card_description and g = "\<lambda>e. Some (description e)"]
          card_description_Feature)
  have st1: "\<And>i e. elements ''strong'' (Keyed i (fst (Feature e (initial_state st)))) =
       elements ''strong'' (description e)"
    by (simp add: Feature_def)
  have e: "map_option (map (elements ''strong''))
         (section_cards (fst (HomepageFeatures (initial_state st)))) =
       Some (map (\<lambda>e. elements ''strong'' (description e)) FeatureList)"
    by (simp only: section_cards_eq option.map fl
          map_over_cards [where f = "elements ''strong''"
             and g = "\<lambda>e. elements ''strong'' (description e)"] st1)
  show ?thesis
    unfolding n k t d e by (simp add: FeatureList_def)
qed

subsection \<open>The empty list\<close>

text \<open>
  Claim C4. With an empty list in the module state the entry point returns the section
  wrapper, its container and its row, the row without children, and the state as it
  was.
\<close>

theorem empty_list_renders_empty_row:
  "HomepageFeatures (s\<lparr>FeatureList_val := []\<rparr>) =
     (Host ''section'' (class_attr (features (styles_val s)))
        [Host ''div'' (class_attr (ascii ''container''))
           [Host ''div'' (class_attr (ascii ''row'')) []]],
      s\<lparr>FeatureList_val := []\<rparr>)
   \<and> section_cards (fst (HomepageFeatures (s\<lparr>FeatureList_val := []\<rparr>))) = Some []"
  by (simp add: HomepageFeatures_def)

subsection \<open>Repeated invocation\<close>

text \<open>
  Claim C5. Invoking the entry point again, on the state the first invocation left
  behind, gives the same tree as the first invocation; so does any later invocation.
\<close>

theorem render_twice_same_output:
  "fst (HomepageFeatures (snd (HomepageFeatures s))) = fst (HomepageFeatures s)
   \<and> fst (HomepageFeatures (render_times n s)) = fst (HomepageFeatures s)"
  by (simp only: HomepageFeatures_state render_times_state)

subsection \<open>No error on well-formed entries\<close>














text \<open>The two checks do fire on entries that are not well formed.\<close>

lemma missing_icon_fails:
  "HomepageFeatures_checked st
     [\<lparr>raw_title = VStr t, raw_Svg = None, raw_description = VNull\<rparr>] =
   Inl InvalidElementType"
  by (simp add: HomepageFeatures_checked_def feature_element_checked_def Feature_checked_def)

lemma object_child_fails:
  "HomepageFeatures_checked st
     [\<lparr>raw_title = VStr t, raw_Svg = Some v, raw_description = VArr [VStr u, VObj]\<rparr>] =
   Inl InvalidChild"
  by (simp add: HomepageFeatures_checked_def feature_element_checked_def Feature_checked_def)



subsection \<open>The list is left alone\<close>

text \<open>
  Claim C7. Neither \<open>Feature\<close> nor the entry point changes the module state: the list
  (and the CSS module) after an invocation are those before it, after any number of
  invocations too, and starting from module initialisation the list is still the
  fixed list.
\<close>

theorem render_leaves_list_unchanged:
  "snd (HomepageFeatures s) = s
   \<and> snd (Feature e s) = s
   \<and> render_times n s = s
   \<and> FeatureList_val (render_times n (initial_state st)) = FeatureList"
  by (simp add: render_times_state HomepageFeatures_state Feature_state)
     (simp add: initial_state_def)

subsection \<open>Attributes of a card\<close>

text \<open>
  Claim C8. The root of every card is a \<open>div\<close> whose class list is \<open>col\<close>, \<open>col--4\<close>: the
  column class of the external grid system that stands for four twelfths of a row. This
  holds for the card of any entry and for every child of the rendered row.
\<close>

theorem card_column_class:
  "card_class_tokens (fst (Feature e s)) = Some (''div'', [ascii ''col'', ascii ''col--4''])
   \<and> map_option (map card_class_tokens) (section_cards (fst (HomepageFeatures s))) =
       Some (replicate (length (FeatureList_val s))
               (Some (''div'', [ascii ''col'', ascii ''col--4''])))"
proof -
  have one: "card_class_tokens (fst (Feature e s)) =
       Some (''div'', [ascii ''col'', ascii ''col--4''])"
    by (simp add: card_class_tokens_def Feature_def clsx_col tokens_col)
  have "map_option (map card_class_tokens) (section_cards (fst (HomepageFeatures s))) =
       Some (map (\<lambda>e. Some (''div'', [ascii ''col'', ascii ''col--4''])) (FeatureList_val s))"
    by (simp only: section_cards_eq option.map
          map_over_cards [where f = card_class_tokens
             and g = "\<lambda>e. Some (''div'', [ascii ''col'', ascii ''col--4''])"]
          card_class_tokens_Feature)
  with one show ?thesis by (simp add: map_replicate_const)
qed

text \<open>
  Claim C9. The heading of a card is a \<open>Heading\<close> element with \<open>as\<close> set to \<open>h3\<close> and the
  entry's title as its only child; it is the first heading of the card in document
  order; and every card of the rendered row has such a heading.
\<close>

theorem title_is_level_three_heading:
  "card_heading (fst (Feature e s)) = Some (H3, title e)
   \<and> headings (fst (Feature e s)) = (H3, [Text (title e)]) # headings (description e)
   \<and> map_option (map card_heading) (section_cards (fst (HomepageFeatures s))) =
       Some (map (\<lambda>e. Some (H3, title e)) (FeatureList_val s))"
proof -
  have a: "card_heading (fst (Feature e s)) = Some (H3, title e)"
    by (simp add: card_heading_def card_text_wrapper_def Feature_def)
  have b: "headings (fst (Feature e s)) = (H3, [Text (title e)]) # headings (description e)"
    by (simp add: Feature_def)
  have c: "map_option (map card_heading) (section_cards (fst (HomepageFeatures s))) =
       Some (map (\<lambda>e. Some (H3, title e)) (FeatureList_val s))"
    by (simp only: section_cards_eq option.map
          map_over_cards [where f = card_heading and g = "\<lambda>e. Some (H3, title e)"]
          card_heading_Feature)
  from a b c show ?thesis by blast
qed

text \<open>
  Claim C10. The first child of a card is a \<open>div\<close> with class \<open>text--center\<close> whose only
  child is the entry's \<open>Svg\<close> element, with \<open>role\<close> set to \<open>img\<close> and \<open>className\<close> set to
  \<open>styles.featureSvg\<close>. This holds for every card of the rendered row, and the \<open>Svg\<close>
  elements of the section are, for each entry in turn, this one followed by those of
  the entry's own description.
\<close>

theorem icon_has_role_img_and_class:
  "card_icon_wrapper (fst (Feature e s)) =
     Some (Host ''div'' (class_attr (ascii ''text--center''))
             [SvgEl (Svg e)
                \<lparr>className = Some (featureSvg (styles_val s)), role = Some (ascii ''img'')\<rparr>])
   \<and> map_option (map card_icon_wrapper) (section_cards (fst (HomepageFeatures s))) =
       Some (map (\<lambda>e. Some (Host ''div'' (class_attr (ascii ''text--center''))
                          [SvgEl (Svg e)
                             \<lparr>className = Some (featureSvg (styles_val s)),
                              role = Some (ascii ''img'')\<rparr>]))
               (FeatureList_val s))
   \<and> svgs (fst (HomepageFeatures s)) =
       concat (map (\<lambda>e. (Svg e, \<lparr>className = Some (featureSvg (styles_val s)),
                                  role = Some (ascii ''img'')\<rparr>) # svgs (description e))
                 (FeatureList_val s))"
proof -
  have a: "card_icon_wrapper (fst (Feature e s)) =
     Some (Host ''div'' (class_attr (ascii ''text--center''))
             [SvgEl (Svg e)
                \<lparr>className = Some (featureSvg (styles_val s)), role = Some (ascii ''img'')\<rparr>])"
    by (simp add: card_icon_wrapper_def Feature_def)
  have b: "map_option (map card_icon_wrapper) (section_cards (fst (HomepageFeatures s))) =
       Some (map (\<lambda>e. Some (Host ''div'' (class_attr (ascii ''text--center''))
                          [SvgEl (Svg e)
                             \<lparr>className = Some (featureSvg (styles_val s)),
                              role = Some (ascii ''img'')\<rparr>]))
               (FeatureList_val s))"
    by (simp only: section_cards_eq option.map
          map_over_cards [where f = card_icon_wrapper
             and g = "\<lambda>e. Some (Host ''div'' (class_attr (ascii ''text--center''))
                          [SvgEl (Svg e)
                             \<lparr>className = Some (featureSvg (styles_val s)),
                              role = Some (ascii ''img'')\<rparr>])"]
          card_icon_wrapper_Feature)
  from a b svgs_section [of s] show ?thesis by blast
qed

end
